theory Spec2Isabelle
  imports Complex_Main
begin

section \<open>Python values used by Q1.py\<close>

subsection \<open>Exceptions\<close>

text \<open>
  The exception classes that decide a branch of Q1.py. \<open>ValueError\<close> stands for the
  class and its subclasses (\<open>json.JSONDecodeError\<close>, \<open>UnicodeDecodeError\<close>);
  \<open>OtherError\<close> is any other subclass of \<open>Exception\<close> (an aiohttp client error, a
  closed websocket, an \<open>OSError\<close>), with its message.
\<close>

datatype exn = KeyError | ValueError | TypeError | AttributeError | OverflowError
  | OtherError string

subsection \<open>Floats: IEEE binary64, round to nearest, ties to even\<close>

text \<open>
  A Python float is a sign and a magnitude (a rational that binary64 represents
  exactly), an infinity, or a NaN. \<open>Finite True 0\<close> is \<open>-0.0\<close>.
\<close>

datatype pyfloat = Finite bool rat | Inf bool | NaN

function bit_length :: "int \<Rightarrow> nat" where
  "bit_length n = (if n \<le> 0 then 0 else Suc (bit_length (n div 2)))"
  by pat_completeness auto
termination
  by (relation "measure nat") auto

declare bit_length.simps [simp del]

definition pow2 :: "int \<Rightarrow> rat" where
  "pow2 k = (if 0 \<le> k then 2 ^ nat k else 1 / 2 ^ nat (- k))"

text \<open>\<open>floor_log2 a\<close> is the integer \<open>e\<close> with \<open>2^e \<le> a < 2^(e+1)\<close>, for \<open>a > 0\<close>.\<close>

definition floor_log2 :: "rat \<Rightarrow> int" where
  "floor_log2 a =
     (let (p, q) = quotient_of a;
          k = int (bit_length p) - int (bit_length q)
      in if pow2 k \<le> a then k else k - 1)"

definition round_half_even :: "rat \<Rightarrow> int" where
  "round_half_even x =
     (let f = \<lfloor>x\<rfloor>; d = x - of_int f
      in if d < 1 / 2 then f
         else if 1 / 2 < d then f + 1
         else if even f then f else f + 1)"

text \<open>
  \<open>round64 s a\<close> rounds the exact magnitude \<open>a \<ge> 0\<close> with sign \<open>s\<close> to binary64:
  53 significant bits, exponent at least \<open>-1022\<close> (below it the spacing stays
  \<open>2^-1074\<close>, the subnormal range), and overflow to infinity when the rounded
  magnitude reaches \<open>2^1024\<close>.
\<close>

definition round64 :: "bool \<Rightarrow> rat \<Rightarrow> pyfloat" where
  "round64 s a =
     (if a = 0 then Finite s 0
      else let e = max (floor_log2 a) (- 1022);
               ulp = pow2 (e - 52);
               r = of_int (round_half_even (a / ulp)) * ulp
           in if r = 0 then Finite s 0
              else if 1024 \<le> floor_log2 r then Inf s else Finite s r)"

text \<open>A decimal literal such as \<open>0.95\<close>, and \<open>float(n)\<close> of an int that does not overflow.\<close>

definition float_of_rat :: "rat \<Rightarrow> pyfloat" where
  "float_of_rat q = round64 (q < 0) \<bar>q\<bar>"

definition signed :: "bool \<Rightarrow> rat \<Rightarrow> rat" where
  "signed s a = (if s then - a else a)"

text \<open>\<open>x + y\<close> on floats.\<close>

fun fadd :: "pyfloat \<Rightarrow> pyfloat \<Rightarrow> pyfloat" where
  "fadd NaN y = NaN"
| "fadd x NaN = NaN"
| "fadd (Inf s1) (Inf s2) = (if s1 = s2 then Inf s1 else NaN)"
| "fadd (Inf s1) (Finite s2 b) = Inf s1"
| "fadd (Finite s1 a) (Inf s2) = Inf s2"
| "fadd (Finite s1 a) (Finite s2 b) =
     (let v = signed s1 a + signed s2 b
      in if v = 0 then Finite (s1 \<and> s2) 0 else round64 (v < 0) \<bar>v\<bar>)"

text \<open>\<open>x * y\<close> on floats.\<close>

fun fmul :: "pyfloat \<Rightarrow> pyfloat \<Rightarrow> pyfloat" where
  "fmul NaN y = NaN"
| "fmul x NaN = NaN"
| "fmul (Inf s1) (Inf s2) = Inf (s1 \<noteq> s2)"
| "fmul (Inf s1) (Finite s2 b) = (if b = 0 then NaN else Inf (s1 \<noteq> s2))"
| "fmul (Finite s1 a) (Inf s2) = (if a = 0 then NaN else Inf (s1 \<noteq> s2))"
| "fmul (Finite s1 a) (Finite s2 b) = round64 (s1 \<noteq> s2) (a * b)"

text \<open>\<open>x / 2\<close>: the divisor is the literal 2, so no \<open>ZeroDivisionError\<close> arises.\<close>

fun fdiv2 :: "pyfloat \<Rightarrow> pyfloat" where
  "fdiv2 NaN = NaN"
| "fdiv2 (Inf s) = Inf s"
| "fdiv2 (Finite s a) = round64 s (a / 2)"

text \<open>Truth value of a float: only \<open>0.0\<close> and \<open>-0.0\<close> are false.\<close>

fun truthy :: "pyfloat \<Rightarrow> bool" where
  "truthy (Finite s a) = (a \<noteq> 0)"
| "truthy (Inf s) = True"
| "truthy NaN = True"

subsection \<open>Text: decimal digits, float formatting\<close>

text \<open>
  A \<open>str\<close> is the list of the bytes of its UTF-8 encoding, so \<open>s.encode()\<close> is
  the identity.
\<close>

definition digit_char :: "int \<Rightarrow> char" where
  "digit_char d = ''0123456789'' ! nat d"

function digits :: "int \<Rightarrow> string" where
  "digits n = (if n < 10 then [digit_char n] else digits (n div 10) @ [digit_char (n mod 10)])"
  by pat_completeness auto
termination
  by (relation "measure nat") auto

declare digits.simps [simp del]

text \<open>\<open>str(n)\<close> of an int.\<close>

definition str_int :: "int \<Rightarrow> string" where
  "str_int n = (if n < 0 then CHR ''-'' # digits (- n) else digits n)"

text \<open>
  \<open>f"{x:.1f}"\<close>: the exact value of the float, rounded to one decimal with ties to
  even; the sign is printed for every negative float, \<open>-0.0\<close> included.
\<close>

fun format_1f :: "pyfloat \<Rightarrow> string" where
  "format_1f NaN = ''nan''"
| "format_1f (Inf s) = (if s then ''-inf'' else ''inf'')"
| "format_1f (Finite s a) =
     (let n = round_half_even (a * 10)
      in (if s then ''-'' else []) @ digits (n div 10) @ ''.'' @ digits (n mod 10))"

datatype pyval = PStr string | PInt int

fun py_str :: "pyval \<Rightarrow> string" where
  "py_str (PStr s) = s"
| "py_str (PInt n) = str_int n"

subsection \<open>urllib.parse.urlencode\<close>

definition ALWAYS_SAFE :: string where
  "ALWAYS_SAFE = ''ABCDEFGHIJKLMNOPQRSTUVWXYZabcdefghijklmnopqrstuvwxyz0123456789_.-~''"

definition hex_digit :: "nat \<Rightarrow> char" where
  "hex_digit d = ''0123456789ABCDEF'' ! d"

text \<open>\<open>'%{:02X}'.format(b)\<close>\<close>

definition percent :: "char \<Rightarrow> string" where
  "percent c = [CHR ''%'', hex_digit (of_char c div 16), hex_digit (of_char c mod 16)]"

text \<open>\<open>quote(s, safe)\<close>: every byte outside the safe set is percent-encoded.\<close>

definition quote :: "string \<Rightarrow> string \<Rightarrow> string" where
  "quote s safe =
     concat (map (\<lambda>c. if c \<in> set ALWAYS_SAFE \<union> set safe then [c] else percent c) s)"

text \<open>\<open>quote_plus(s)\<close>: with a space in \<open>s\<close>, quote with the space safe, then
  replace every space by a plus.\<close>

definition quote_plus :: "string \<Rightarrow> string" where
  "quote_plus s =
     (if CHR '' '' \<notin> set s then quote s []
      else map (\<lambda>c. if c = CHR '' '' then CHR ''+'' else c) (quote s '' ''))"

fun join :: "string \<Rightarrow> string list \<Rightarrow> string" where
  "join sep [] = []"
| "join sep [x] = x"
| "join sep (x # y # ys) = x @ sep @ join sep (y # ys)"

text \<open>The loop of \<open>urlencode\<close> over the items of the dict, appending to \<open>l\<close>.\<close>

fun urlencode_items :: "(string \<times> pyval) list \<Rightarrow> string list \<Rightarrow> string list" where
  "urlencode_items [] l = l"
| "urlencode_items ((k, v) # items) l =
     urlencode_items items (l @ [quote_plus k @ ''='' @ quote_plus (py_str v)])"

definition urlencode :: "(string \<times> pyval) list \<Rightarrow> string" where
  "urlencode query = join ''&'' (urlencode_items query [])"

text \<open>
  The query string in the words of the specification: the pairs in insertion order,
  each \<open>key=value\<close> with both sides URL-encoded byte by byte (a safe byte stays, a
  space becomes a plus, any other byte becomes \<open>%XX\<close>), joined by \<open>&\<close>.
\<close>

definition encode_byte :: "char \<Rightarrow> string" where
  "encode_byte c =
     (if c \<in> set ALWAYS_SAFE then [c] else if c = CHR '' '' then ''+'' else percent c)"

definition url_encoded :: "string \<Rightarrow> string" where
  "url_encoded s = concat (map encode_byte s)"

definition canonical_query :: "(string \<times> pyval) list \<Rightarrow> string" where
  "canonical_query params =
     join ''&'' (map (\<lambda>(k, v). url_encoded k @ ''='' @ url_encoded (py_str v)) params)"

text \<open>\<open>d[k] = v\<close> on a dict in insertion order: a present key keeps its place, a new
  key goes last.\<close>

fun setitem :: "(string \<times> 'v) list \<Rightarrow> string \<Rightarrow> 'v \<Rightarrow> (string \<times> 'v) list" where
  "setitem [] k v = [(k, v)]"
| "setitem ((k', v') # d) k v = (if k' = k then (k, v) # d else (k', v') # setitem d k v)"

subsection \<open>Decoded JSON\<close>

text \<open>
  What \<open>json.loads\<close> returns: \<open>None\<close>, a bool, an int, a float, a str, a list or a
  dict (its items as an association list, looked up by key).
\<close>

datatype json = JNull | JBool bool | JInt int | JFloat pyfloat | JStr string
  | JArr "json list" | JObj "(string \<times> json) list"

text \<open>\<open>d.get(k, dflt)\<close>: only a dict has the method.\<close>

fun dict_get :: "json \<Rightarrow> string \<Rightarrow> json \<Rightarrow> exn + json" where
  "dict_get (JObj kvs) k dflt = Inr (case map_of kvs k of Some v \<Rightarrow> v | None \<Rightarrow> dflt)"
| "dict_get d k dflt = Inl AttributeError"

text \<open>\<open>p[k]\<close> with a str key: a missing key of a dict is \<open>KeyError\<close>; a list, a str
  and every scalar raise \<open>TypeError\<close>.\<close>

fun getitem :: "json \<Rightarrow> string \<Rightarrow> exn + json" where
  "getitem (JObj kvs) k = (case map_of kvs k of Some v \<Rightarrow> Inr v | None \<Rightarrow> Inl KeyError)"
| "getitem p k = Inl TypeError"

text \<open>
  \<open>float(v)\<close>. The conversion of a str is Python's own and is a parameter
  (\<open>None\<close> where \<open>float\<close> raises \<open>ValueError\<close>).
\<close>

fun py_float :: "(string \<Rightarrow> pyfloat option) \<Rightarrow> json \<Rightarrow> exn + pyfloat" where
  "py_float parse (JStr s) = (case parse s of Some f \<Rightarrow> Inr f | None \<Rightarrow> Inl ValueError)"
| "py_float parse (JInt n) =
     (case float_of_rat (of_int n) of Inf s \<Rightarrow> Inl OverflowError | f \<Rightarrow> Inr f)"
| "py_float parse (JFloat f) = Inr f"
| "py_float parse (JBool b) = Inr (Finite False (if b then 1 else 0))"
| "py_float parse v = Inl TypeError"

definition bind_exn :: "exn + 'a \<Rightarrow> ('a \<Rightarrow> exn + 'b) \<Rightarrow> exn + 'b" where
  "bind_exn m f = (case m of Inl e \<Rightarrow> Inl e | Inr x \<Rightarrow> f x)"

section \<open>Configuration\<close>

text \<open>The pool of quantities, each as \<open>str\<close> prints the float literal.\<close>

definition ORDER_QUANTITIES :: "string list" where
  "ORDER_QUANTITIES = [''0.004'', ''0.005'', ''0.006'', ''0.007'']"

definition BUY_PRICE_RATIO :: pyfloat where
  "BUY_PRICE_RATIO = float_of_rat (95 / 100)"

definition SELL_PRICE_RATIO :: pyfloat where
  "SELL_PRICE_RATIO = float_of_rat (105 / 100)"

definition CANCEL_ORDER_COUNT :: nat where
  "CANCEL_ORDER_COUNT = 5"

definition MAX_RETRY_COUNT :: nat where
  "MAX_RETRY_COUNT = 6"

definition RETRY_BASE_DELAY :: nat where
  "RETRY_BASE_DELAY = 2"

section \<open>sign\_query\<close>

text \<open>
  \<open>hmac.new(key, msg, hashlib.sha256).hexdigest()\<close> is the standard library's and
  is the parameter \<open>hmac_sha256\<close>: key, then message, to the hex digest.
\<close>

definition sign_query ::
  "(string \<Rightarrow> string \<Rightarrow> string) \<Rightarrow> (string \<times> pyval) list \<Rightarrow> string \<Rightarrow> string" where
  "sign_query hmac_sha256 params secret =
     (let query = urlencode params in hmac_sha256 secret query)"

section \<open>BinanceClient\<close>

record binance_client =
  api_key :: string
  api_secret :: string
  base_url :: string

datatype http_method = POST | DELETE

record http_request =
  req_method :: http_method
  req_url :: string
  req_params :: "(string \<times> pyval) list"

text \<open>
  The request \<open>place_order\<close> sends; \<open>now\<close> is what \<open>timestamp_ms()\<close> returns.
\<close>

definition place_order ::
  "(string \<Rightarrow> string \<Rightarrow> string) \<Rightarrow> binance_client \<Rightarrow> string \<Rightarrow> string \<Rightarrow> string \<Rightarrow> string
     \<Rightarrow> int \<Rightarrow> http_request" where
  "place_order hmac_sha256 client smb side price qty now =
     (let params =
            [(''symbol'', PStr smb),
             (''side'', PStr side),
             (''type'', PStr ''LIMIT''),
             (''timeInForce'', PStr ''GTC''),
             (''quantity'', PStr qty),
             (''price'', PStr price),
             (''timestamp'', PInt now)];
          params = setitem params ''signature''
                     (PStr (sign_query hmac_sha256 params (api_secret client)))
      in \<lparr>req_method = POST, req_url = base_url client @ ''/fapi/v1/order'',
          req_params = params\<rparr>)"

definition cancel_all_orders ::
  "(string \<Rightarrow> string \<Rightarrow> string) \<Rightarrow> binance_client \<Rightarrow> string \<Rightarrow> int \<Rightarrow> http_request" where
  "cancel_all_orders hmac_sha256 client smb now =
     (let params = [(''symbol'', PStr smb), (''timestamp'', PInt now)];
          params = setitem params ''signature''
                     (PStr (sign_query hmac_sha256 params (api_secret client)))
      in \<lparr>req_method = DELETE, req_url = base_url client @ ''/fapi/v1/allOpenOrders'',
          req_params = params\<rparr>)"

section \<open>Trader: the shared quote and the order counter\<close>

record trader =
  symbol :: string
  bid :: "pyfloat option"
  ask :: "pyfloat option"
  order_count :: nat
  running :: bool

definition new_trader :: "string \<Rightarrow> trader" where
  "new_trader name =
     \<lparr>symbol = name, bid = None, ask = None, order_count = 0, running = True\<rparr>"

definition update_ticker :: "trader \<Rightarrow> pyfloat \<Rightarrow> pyfloat \<Rightarrow> trader" where
  "update_ticker t b a = t\<lparr>bid := Some b, ask := Some a\<rparr>"

text \<open>\<open>if self.bid and self.ask\<close>: \<open>None\<close> and a zero float are both false.\<close>

definition get_mid_price :: "trader \<Rightarrow> pyfloat option" where
  "get_mid_price t =
     (case (bid t, ask t) of
        (Some b, Some a) \<Rightarrow> if truthy b \<and> truthy a then Some (fdiv2 (fadd b a)) else None
      | _ \<Rightarrow> None)"

section \<open>Observable effects\<close>

datatype log =
    Connecting
  | Connected_ok
  | Quote_line json pyfloat pyfloat
  | Parse_error exn
  | Ws_error exn
  | Retry_in nat nat
  | Waiting_for_quote
  | Placing string string string
  | Place_result int string
  | Cancelling
  | Cancel_result int string

datatype action = Sleep rat | Print log | Http http_request

section \<open>Trader.trade\_loop\<close>

datatype side = BUY | SELL

fun side_str :: "side \<Rightarrow> string" where
  "side_str BUY = ''BUY''"
| "side_str SELL = ''SELL''"

text \<open>
  What one pass of the loop body takes from outside: the wait drawn by
  \<open>random.uniform(3, 7)\<close>, the two \<open>random.choice\<close> draws, the clock at each signing,
  and what each REST call does: it returns a status and a body, or raises.
\<close>

record cycle_env =
  wait :: rat
  side_choice :: side
  qty_choice :: nat
  place_time :: int
  place_outcome :: "exn + (int \<times> string)"
  cancel_time :: int
  cancel_outcome :: "exn + (int \<times> string)"

definition limit_price :: "pyfloat \<Rightarrow> side \<Rightarrow> string" where
  "limit_price mid_price sd =
     (if sd = BUY then format_1f (fmul mid_price BUY_PRICE_RATIO)
      else format_1f (fmul mid_price SELL_PRICE_RATIO))"

text \<open>
  One pass of the loop body: the effects in order, the trader after it, and the
  exception that left the body, if any.
\<close>

definition trade_cycle ::
  "(string \<Rightarrow> string \<Rightarrow> string) \<Rightarrow> binance_client \<Rightarrow> trader \<Rightarrow> cycle_env
     \<Rightarrow> action list \<times> trader \<times> exn option" where
  "trade_cycle hmac_sha256 client t env =
     (let waited = [Sleep (wait env)];
          skip = (waited @ [Print Waiting_for_quote], t, None)
      in case get_mid_price t of
           None \<Rightarrow> skip
         | Some mid_price \<Rightarrow>
             if \<not> truthy mid_price then skip
             else
               let sd = side_choice env;
                   qty = ORDER_QUANTITIES ! (qty_choice env mod length ORDER_QUANTITIES);
                   price = limit_price mid_price sd;
                   placed = waited @
                     [Print (Placing (side_str sd) qty price),
                      Http (place_order hmac_sha256 client (symbol t) (side_str sd) price qty
                              (place_time env))]
               in (case place_outcome env of
                    Inl e \<Rightarrow> (placed, t, Some e)
                  | Inr (status, resp) \<Rightarrow>
                      let reported = placed @ [Print (Place_result status resp)];
                          t1 = t\<lparr>order_count := order_count t + 1\<rparr>
                      in if CANCEL_ORDER_COUNT \<le> order_count t1 then
                           (let swept = reported @
                                  [Sleep 2, Print Cancelling,
                                   Http (cancel_all_orders hmac_sha256 client (symbol t)
                                           (cancel_time env))]
                            in (case cancel_outcome env of
                                  Inl e \<Rightarrow> (swept, t1, Some e)
                                | Inr (status, response) \<Rightarrow>
                                    (swept @ [Print (Cancel_result status response)],
                                     t1\<lparr>order_count := 0\<rparr>, None)))
                         else (reported, t1, None)))"

text \<open>
  The loop, over what happens to the trader in order: the feed writes a quote
  (\<open>update_ticker\<close>), or the loop makes its next pass. An exception leaves the loop;
  \<open>Looping\<close> says the loop is still going when the events end.
\<close>

datatype loop_event = Tick pyfloat pyfloat | Cycle cycle_env

datatype loop_status = Looping | Stopped | Crashed exn

fun trade_loop ::
  "(string \<Rightarrow> string \<Rightarrow> string) \<Rightarrow> binance_client \<Rightarrow> trader \<Rightarrow> loop_event list
     \<Rightarrow> action list \<times> trader \<times> loop_status" where
  "trade_loop hmac_sha256 client t [] = ([], t, if running t then Looping else Stopped)"
| "trade_loop hmac_sha256 client t (Tick b a # evs) =
     trade_loop hmac_sha256 client (update_ticker t b a) evs"
| "trade_loop hmac_sha256 client t (Cycle env # evs) =
     (if \<not> running t then ([], t, Stopped)
      else case trade_cycle hmac_sha256 client t env of
             (acts, t', Some e) \<Rightarrow> (acts, t', Crashed e)
           | (acts, t', None) \<Rightarrow>
               (case trade_loop hmac_sha256 client t' evs of
                  (acts', t'', st) \<Rightarrow> (acts @ acts', t'', st)))"

text \<open>The REST calls of a run, in order.\<close>

fun requests :: "action list \<Rightarrow> http_request list" where
  "requests [] = []"
| "requests (Http r # acts) = r # requests acts"
| "requests (Sleep d # acts) = requests acts"
| "requests (Print l # acts) = requests acts"

section \<open>websocket\_listener\<close>

text \<open>
  The body of the inner \<open>try\<close>. A message is given by what \<open>json.loads\<close> makes of
  it: the decoded value, or the exception raised. The result is the trader, the
  line printed, and the exception that left the body, if any.
\<close>

definition parse_quote ::
  "(string \<Rightarrow> pyfloat option) \<Rightarrow> exn + json \<Rightarrow> exn + (json \<times> pyfloat \<times> pyfloat)" where
  "parse_quote parse message =
     bind_exn message (\<lambda>data.
     bind_exn (dict_get data ''data'' data) (\<lambda>payload.
     bind_exn (getitem payload ''b'') (\<lambda>bv.
     bind_exn (py_float parse bv) (\<lambda>b.
     bind_exn (getitem payload ''a'') (\<lambda>av.
     bind_exn (py_float parse av) (\<lambda>a.
     Inr (payload, b, a)))))))"

definition message_body ::
  "(string \<Rightarrow> pyfloat option) \<Rightarrow> trader \<Rightarrow> exn + json \<Rightarrow> trader \<times> log list \<times> exn option" where
  "message_body parse t message =
     (case parse_quote parse message of
        Inl e \<Rightarrow> (t, [], Some e)
      | Inr (payload, b, a) \<Rightarrow>
          (let t' = update_ticker t b a
           in case getitem payload ''s'' of
                Inl e \<Rightarrow> (t', [], Some e)
              | Inr s \<Rightarrow> (t', [Quote_line s b a], None)))"

text \<open>\<open>except (KeyError, ValueError)\<close>: the two classes the handler names.\<close>

fun caught_by_parser :: "exn \<Rightarrow> bool" where
  "caught_by_parser KeyError = True"
| "caught_by_parser ValueError = True"
| "caught_by_parser e = False"

definition on_message ::
  "(string \<Rightarrow> pyfloat option) \<Rightarrow> trader \<Rightarrow> exn + json \<Rightarrow> trader \<times> log list \<times> exn option" where
  "on_message parse t message =
     (case message_body parse t message of
        (t', out, None) \<Rightarrow> (t', out, None)
      | (t', out, Some e) \<Rightarrow>
          if caught_by_parser e then (t', out @ [Parse_error e], None)
          else (t', out, Some e))"

text \<open>
  The listener's own state: the retry counter, and whether the loop is inside the
  \<open>async with\<close> block (a connection is open).
\<close>

record ws_state =
  retry_count :: nat
  connected :: bool

definition ws_init :: ws_state where
  "ws_init = \<lparr>retry_count = 0, connected = False\<rparr>"

datatype ws_event =
    ConnectOk
  | ConnectFail exn
  | Message "exn + json"
  | StreamFail exn
  | StreamEnd

text \<open>The outer \<open>except Exception\<close> handler.\<close>

definition on_failure :: "ws_state \<Rightarrow> exn \<Rightarrow> ws_state \<times> action list" where
  "on_failure w e =
     (let rc = min (retry_count w + 1) MAX_RETRY_COUNT;
          wait_time = min (RETRY_BASE_DELAY ^ rc) 30
      in (w\<lparr>retry_count := rc, connected := False\<rparr>,
          [Print (Ws_error e), Print (Retry_in wait_time rc), Sleep (of_nat wait_time)]))"

text \<open>
  One step of the \<open>while True\<close> loop. Outside the block the next thing that happens
  is a connection attempt, which succeeds or raises; inside it, a message arrives,
  the stream raises, or the stream ends. \<open>None\<close>: the event cannot happen in
  this state.
\<close>

definition listener_step ::
  "(string \<Rightarrow> pyfloat option) \<Rightarrow> ws_state \<Rightarrow> trader \<Rightarrow> ws_event
     \<Rightarrow> (ws_state \<times> trader \<times> action list) option" where
  "listener_step parse w t ev =
     (if connected w then
        (case ev of
           Message m \<Rightarrow>
             (case on_message parse t m of
                (t', out, None) \<Rightarrow> Some (w, t', map Print out)
              | (t', out, Some e) \<Rightarrow>
                  (let (w', acts) = on_failure w e in Some (w', t', map Print out @ acts)))
         | StreamFail e \<Rightarrow> (let (w', acts) = on_failure w e in Some (w', t, acts))
         | StreamEnd \<Rightarrow> Some (w\<lparr>connected := False\<rparr>, t, [])
         | _ \<Rightarrow> None)
      else
        (case ev of
           ConnectOk \<Rightarrow>
             Some (w\<lparr>retry_count := 0, connected := True\<rparr>, t,
                   [Print Connecting, Print Connected_ok])
         | ConnectFail e \<Rightarrow>
             (let (w', acts) = on_failure w e in Some (w', t, Print Connecting # acts))
         | _ \<Rightarrow> None))"

fun websocket_listener ::
  "(string \<Rightarrow> pyfloat option) \<Rightarrow> ws_state \<Rightarrow> trader \<Rightarrow> ws_event list
     \<Rightarrow> (ws_state \<times> trader \<times> action list) option" where
  "websocket_listener parse w t [] = Some (w, t, [])"
| "websocket_listener parse w t (ev # evs) =
     (case listener_step parse w t ev of
        None \<Rightarrow> None
      | Some (w', t', acts) \<Rightarrow>
          (case websocket_listener parse w' t' evs of
             None \<Rightarrow> None
           | Some (w'', t'', acts') \<Rightarrow> Some (w'', t'', acts @ acts')))"

text \<open>The waits of a run, in order.\<close>

fun sleeps :: "action list \<Rightarrow> rat list" where
  "sleeps [] = []"
| "sleeps (Sleep d # acts) = d # sleeps acts"
| "sleeps (Print l # acts) = sleeps acts"
| "sleeps (Http r # acts) = sleeps acts"

text \<open>
  A run of consecutive failures from state \<open>w\<close>, one per exception: inside the block
  the first is the stream raising, outside it a connection attempt that fails; every
  later one is a failed attempt.
\<close>

definition consecutive_failures :: "ws_state \<Rightarrow> exn list \<Rightarrow> ws_event list" where
  "consecutive_failures w es =
     (case es of
        [] \<Rightarrow> []
      | e # es' \<Rightarrow> (if connected w then StreamFail e else ConnectFail e) # map ConnectFail es')"

text \<open>The wait after a failure that leaves the counter at \<open>r\<close>, and at the bound from
  \<open>MAX_RETRY_COUNT\<close> on.\<close>

definition backoff :: "nat \<Rightarrow> nat" where
  "backoff r = min (RETRY_BASE_DELAY ^ min r MAX_RETRY_COUNT) 30"

section \<open>Example data\<close>

text \<open>A stand-in for the digest, a client, a trader holding the quote 100.0 / 102.0
  with a given order count, and one pass's inputs.\<close>

definition demo_hmac :: "string \<Rightarrow> string \<Rightarrow> string" where
  "demo_hmac key msg = key @ ''|'' @ msg"

definition demo_client :: binance_client where
  "demo_client = \<lparr>api_key = ''key'', api_secret = ''secret'',
     base_url = ''https://testnet.binancefuture.com''\<rparr>"

definition demo_trader :: "nat \<Rightarrow> trader" where
  "demo_trader n = \<lparr>symbol = ''BTCUSDT'', bid = Some (Finite False 100),
     ask = Some (Finite False 102), order_count = n, running = True\<rparr>"

definition demo_env :: "side \<Rightarrow> exn + (int \<times> string) \<Rightarrow> exn + (int \<times> string) \<Rightarrow> cycle_env" where
  "demo_env sd placed cancelled = \<lparr>wait = 5, side_choice = sd, qty_choice = 0,
     place_time = 1700000000000, place_outcome = placed,
     cancel_time = 1700000002000, cancel_outcome = cancelled\<rparr>"

text \<open>A stand-in for \<open>float\<close> on the two strings of the examples.\<close>

definition demo_float :: "string \<Rightarrow> pyfloat option" where
  "demo_float s =
     (if s = ''100.0'' then Some (Finite False 100)
      else if s = ''102.0'' then Some (Finite False 102) else None)"

section \<open>The reconnect backoff\<close>

lemma sleeps_append: "sleeps (xs @ ys) = sleeps xs @ sleeps ys"
  by (induction xs rule: sleeps.induct) simp_all

lemma connect_failures_run:
  "\<not> connected w \<Longrightarrow>
   \<exists>w' acts. websocket_listener parse w t (map ConnectFail es) = Some (w', t, acts)
     \<and> \<not> connected w'
     \<and> retry_count w' =
         (if es = [] then retry_count w else min (retry_count w + length es) MAX_RETRY_COUNT)
     \<and> sleeps acts = map (\<lambda>i. of_nat (backoff (retry_count w + Suc i))) [0..<length es]"
proof (induction es arbitrary: w)
  case Nil
  then show ?case by simp
next
  case (Cons e es)
  define w1 where "w1 = w\<lparr>retry_count := min (retry_count w + 1) MAX_RETRY_COUNT, connected := False\<rparr>"
  have nc: "\<not> connected w1" by (simp add: w1_def)
  from Cons.IH [OF nc] obtain w' acts where
    run: "websocket_listener parse w1 t (map ConnectFail es) = Some (w', t, acts)"
    and c: "\<not> connected w'"
    and rc: "retry_count w' =
         (if es = [] then retry_count w1 else min (retry_count w1 + length es) MAX_RETRY_COUNT)"
    and sl: "sleeps acts = map (\<lambda>i. of_nat (backoff (retry_count w1 + Suc i))) [0..<length es]"
    by blast
  have step: "listener_step parse w t (ConnectFail e) =
      Some (w1, t, [Print Connecting, Print (Ws_error e),
         Print (Retry_in (backoff (retry_count w + 1)) (min (retry_count w + 1) MAX_RETRY_COUNT)),
         Sleep (of_nat (backoff (retry_count w + 1)))])"
    using Cons.prems
    by (simp add: listener_step_def on_failure_def Let_def w1_def backoff_def)
  have rc1: "\<And>i. backoff (Suc (retry_count w1 + i)) = backoff (Suc (Suc (retry_count w + i)))"
    by (auto simp: backoff_def w1_def MAX_RETRY_COUNT_def min_def)
  have rc': "retry_count w' = min (retry_count w + length (e # es)) MAX_RETRY_COUNT"
    using rc by (auto simp: w1_def MAX_RETRY_COUNT_def min_def)
  show ?case
    using run c sl step rc'
    by (simp add: map_upt_Suc rc1 del: upt_Suc)
qed

lemma stream_failure_run:
  "\<exists>w' acts. websocket_listener parse w t (consecutive_failures w es) = Some (w', t, acts)
     \<and> retry_count w' =
         (if es = [] then retry_count w else min (retry_count w + length es) MAX_RETRY_COUNT)
     \<and> sleeps acts = map (\<lambda>i. of_nat (backoff (retry_count w + Suc i))) [0..<length es]"
proof (cases es)
  case Nil
  then show ?thesis by (simp add: consecutive_failures_def)
next
  case (Cons e es')
  define w1 where "w1 = w\<lparr>retry_count := min (retry_count w + 1) MAX_RETRY_COUNT, connected := False\<rparr>"
  define ev where "ev = (if connected w then StreamFail e else ConnectFail e)"
  have nc: "\<not> connected w1" by (simp add: w1_def)
  from connect_failures_run [OF nc] obtain w' acts where
    run: "websocket_listener parse w1 t (map ConnectFail es') = Some (w', t, acts)"
    and rc: "retry_count w' =
         (if es' = [] then retry_count w1 else min (retry_count w1 + length es') MAX_RETRY_COUNT)"
    and sl: "sleeps acts = map (\<lambda>i. of_nat (backoff (retry_count w1 + Suc i))) [0..<length es']"
    by blast
  have step: "\<exists>pre. listener_step parse w t ev =
      Some (w1, t, pre @ [Print (Ws_error e),
         Print (Retry_in (backoff (retry_count w + 1)) (min (retry_count w + 1) MAX_RETRY_COUNT)),
         Sleep (of_nat (backoff (retry_count w + 1)))]) \<and> sleeps pre = []"
    by (simp add: listener_step_def on_failure_def Let_def w1_def backoff_def ev_def)
  have rc1: "\<And>i. backoff (Suc (retry_count w1 + i)) = backoff (Suc (Suc (retry_count w + i)))"
    by (auto simp: backoff_def w1_def MAX_RETRY_COUNT_def min_def)
  have rc': "retry_count w' = min (retry_count w + length es) MAX_RETRY_COUNT"
    using rc by (auto simp: w1_def Cons MAX_RETRY_COUNT_def min_def)
  have evs: "consecutive_failures w es = ev # map ConnectFail es'"
    by (simp add: consecutive_failures_def Cons ev_def)
  from step obtain pre where
    st: "listener_step parse w t ev =
      Some (w1, t, pre @ [Print (Ws_error e),
         Print (Retry_in (backoff (retry_count w + 1)) (min (retry_count w + 1) MAX_RETRY_COUNT)),
         Sleep (of_nat (backoff (retry_count w + 1)))])" and pre: "sleeps pre = []"
    by blast
  show ?thesis
    unfolding evs using run sl st pre rc'
    by (simp add: Cons map_upt_Suc rc1 sleeps_append del: upt_Suc)
qed

lemma backoff_mono: "r \<le> r' \<Longrightarrow> backoff r \<le> backoff r'"
  unfolding backoff_def RETRY_BASE_DELAY_def
  by (intro min.mono power_increasing) simp_all

lemma backoff_le_cap: "backoff r \<le> 30"
  by (simp add: backoff_def)

lemma sorted_backoff: "sorted (map (\<lambda>i. (of_nat (backoff (r + Suc i)) :: rat)) [0..<n])"
  by (simp add: sorted_map sorted_wrt_iff_nth_less backoff_mono)

lemma backoff_small:
  "backoff 1 = 2" "backoff 2 = 4" "backoff 3 = 8" "backoff 4 = 16"
  by (simp_all add: backoff_def RETRY_BASE_DELAY_def MAX_RETRY_COUNT_def)

lemma backoff_large: "5 \<le> r \<Longrightarrow> backoff r = 30"
proof -
  assume "5 \<le> r"
  then have "min r MAX_RETRY_COUNT = 5 \<or> min r MAX_RETRY_COUNT = 6"
    by (auto simp: MAX_RETRY_COUNT_def min_def)
  then show ?thesis
    by (auto simp: backoff_def RETRY_BASE_DELAY_def)
qed

lemma backoff_table:
  "map (\<lambda>i. (of_nat (backoff (Suc i)) :: rat)) [0..<n] = take n ([2, 4, 8, 16] @ replicate n 30)"
proof (rule nth_equalityI)
  show "length (map (\<lambda>i. (of_nat (backoff (Suc i)) :: rat)) [0..<n]) =
        length (take n ([2, 4, 8, 16] @ replicate n (30::rat)))"
    by simp
next
  fix i assume "i < length (map (\<lambda>i. (of_nat (backoff (Suc i)) :: rat)) [0..<n])"
  then have i: "i < n" by simp
  consider "i = 0" | "i = 1" | "i = 2" | "i = 3" | "4 \<le> i" by linarith
  then show "map (\<lambda>i. (of_nat (backoff (Suc i)) :: rat)) [0..<n] ! i =
             take n ([2, 4, 8, 16] @ replicate n 30) ! i"
  proof cases
    case 5
    then have "backoff (Suc i) = 30" by (simp add: backoff_large)
    with i 5 show ?thesis by (simp add: nth_append)
  qed (use i backoff_small in \<open>simp_all add: numeral_2_eq_2 numeral_3_eq_3 eval_nat_numeral\<close>)
qed

text \<open>
  C1 (as amended). In a run of consecutive failures of the feed consumer that raise
  (the open stream raising, or a connection attempt failing), each failure sets the
  counter to \<open>min (retry_count + 1) MAX_RETRY_COUNT\<close> and waits
  \<open>min (RETRY_BASE_DELAY ^ retry_count) 30\<close> seconds: after the run the counter is
  \<open>min (retry_count + n) MAX_RETRY_COUNT\<close>, the waits of the run are these values in
  order, they never decrease, none exceeds 30, and from a counter of zero they are
  2, 4, 8, 16, 30, 30, ... When the message stream ends without raising, the listener
  leaves the connection and reconnects at once: it does not wait and the counter is
  unchanged.
\<close>

theorem backoff_delay_sequence:
  "\<exists>w' acts. websocket_listener parse w t (consecutive_failures w es) = Some (w', t, acts)
     \<and> retry_count w' =
         (if es = [] then retry_count w else min (retry_count w + length es) MAX_RETRY_COUNT)
     \<and> sleeps acts =
         map (\<lambda>i. of_nat (min (RETRY_BASE_DELAY ^ min (retry_count w + Suc i) MAX_RETRY_COUNT) 30))
           [0..<length es]
     \<and> sorted (sleeps acts)
     \<and> list_all (\<lambda>d. d \<le> 30) (sleeps acts)
     \<and> (retry_count w = 0 \<longrightarrow>
          sleeps acts = take (length es) ([2, 4, 8, 16] @ replicate (length es) 30))
     \<and> listener_step parse (w\<lparr>connected := True\<rparr>) t StreamEnd =
          Some (w\<lparr>connected := False\<rparr>, t, [])"
proof -
  from stream_failure_run [of parse w t es] obtain w' acts where
    run: "websocket_listener parse w t (consecutive_failures w es) = Some (w', t, acts)"
    and rc: "retry_count w' =
         (if es = [] then retry_count w else min (retry_count w + length es) MAX_RETRY_COUNT)"
    and sl: "sleeps acts = map (\<lambda>i. of_nat (backoff (retry_count w + Suc i))) [0..<length es]"
    by blast
  have a: "sorted (sleeps acts)"
    unfolding sl by (rule sorted_backoff)
  have b: "list_all (\<lambda>d. d \<le> 30) (sleeps acts)"
    unfolding sl by (simp add: list_all_iff backoff_le_cap del: upt_Suc)
  have c: "retry_count w = 0 \<longrightarrow>
      sleeps acts = take (length es) ([2, 4, 8, 16] @ replicate (length es) 30)"
    unfolding sl using backoff_table [of "length es"] by simp
  have d: "sleeps acts =
         map (\<lambda>i. of_nat (min (RETRY_BASE_DELAY ^ min (retry_count w + Suc i) MAX_RETRY_COUNT) 30))
           [0..<length es]"
    unfolding sl backoff_def ..
  have e: "listener_step parse (w\<lparr>connected := True\<rparr>) t StreamEnd =
      Some (w\<lparr>connected := False\<rparr>, t, [])"
    by (simp add: listener_step_def)
  show ?thesis
    by (rule exI [of _ w'], rule exI [of _ acts]) (intro conjI run rc d a b c e)
qed

theorem backoff_delay_sequence_witness:
  "websocket_listener (\<lambda>s. None) ws_init (new_trader ''BTCUSDT'')
      (consecutive_failures ws_init [OtherError ''refused'', OtherError ''reset'', OtherError ''refused'', OtherError ''timeout'', OtherError ''refused'', OtherError ''refused'', OtherError ''refused'']) \<noteq> None
   \<and> sleeps (snd (snd (the (websocket_listener (\<lambda>s. None) ws_init (new_trader ''BTCUSDT'')
      (consecutive_failures ws_init [OtherError ''refused'', OtherError ''reset'', OtherError ''refused'', OtherError ''timeout'', OtherError ''refused'', OtherError ''refused'', OtherError ''refused''])))))
       = [2, 4, 8, 16, 30, 30, 30]
   \<and> retry_count (fst (the (websocket_listener (\<lambda>s. None) ws_init (new_trader ''BTCUSDT'')
      (consecutive_failures ws_init [OtherError ''refused'', OtherError ''reset'', OtherError ''refused'', OtherError ''timeout'', OtherError ''refused'', OtherError ''refused'', OtherError ''refused''])))) = 6"
proof -
  have "\<exists>w' acts. websocket_listener (\<lambda>s. None) ws_init (new_trader ''BTCUSDT'')
      (consecutive_failures ws_init [OtherError ''refused'', OtherError ''reset'', OtherError ''refused'', OtherError ''timeout'', OtherError ''refused'', OtherError ''refused'', OtherError ''refused'']) = Some (w', new_trader ''BTCUSDT'', acts)
      \<and> sleeps acts = [2, 4, 8, 16, 30, 30, 30] \<and> retry_count w' = 6"
    using backoff_delay_sequence [of "\<lambda>s. None" ws_init "new_trader ''BTCUSDT''" "[OtherError ''refused'', OtherError ''reset'', OtherError ''refused'', OtherError ''timeout'', OtherError ''refused'', OtherError ''refused'', OtherError ''refused'']"]
    by (auto simp: ws_init_def MAX_RETRY_COUNT_def)
  then show ?thesis by auto
qed

text \<open>
  The claim as stated fails when the drop is the message stream ending: of three
  consecutive failures (the stream ends, then two connection attempts fail) the first
  is followed by no wait and no update of the counter, so the waits are 2, 4 and the
  counter ends at 2, not 2, 4, 8 and 3.
\<close>

theorem stream_end_is_not_backed_off:
  "listener_step (\<lambda>s. None) \<lparr>retry_count = 0, connected = True\<rparr> (new_trader ''BTCUSDT'')
       StreamEnd =
     Some (\<lparr>retry_count = 0, connected = False\<rparr>, new_trader ''BTCUSDT'', [])
   \<and> map_option (\<lambda>(w, t, acts). (retry_count w, sleeps acts))
       (websocket_listener (\<lambda>s. None) \<lparr>retry_count = 0, connected = True\<rparr>
          (new_trader ''BTCUSDT'')
          [StreamEnd, ConnectFail (OtherError ''refused''), ConnectFail (OtherError ''refused'')]) =
     Some (2, [2, 4])"
  by (simp add: listener_step_def on_failure_def Let_def MAX_RETRY_COUNT_def
      RETRY_BASE_DELAY_def)

text \<open>
  C4. A step of the listener resets the retry counter only when a connection is
  established: \<open>ConnectOk\<close> sets it to zero; a step that takes a nonzero counter to
  zero is \<open>ConnectOk\<close>; a connection attempt that fails leaves it at
  \<open>min (retry_count + 1) MAX_RETRY_COUNT\<close>, which is not zero; and every other step
  either keeps it or is a failure that increments it.
\<close>

theorem retry_reset_only_on_connect:
  "listener_step parse w t ev = Some (w', t', acts) \<Longrightarrow>
     (ev = ConnectOk \<longrightarrow> connected w' \<and> retry_count w' = 0)
   \<and> (retry_count w' = 0 \<and> retry_count w \<noteq> 0 \<longrightarrow> ev = ConnectOk)
   \<and> (\<forall>e. ev = ConnectFail e \<longrightarrow>
         \<not> connected w' \<and> retry_count w' = min (retry_count w + 1) MAX_RETRY_COUNT
         \<and> retry_count w' \<noteq> 0)
   \<and> (ev \<noteq> ConnectOk \<longrightarrow>
         retry_count w' = retry_count w
         \<or> (\<not> connected w' \<and> retry_count w' = min (retry_count w + 1) MAX_RETRY_COUNT))"
proof (cases "connected w")
  case False
  assume "listener_step parse w t ev = Some (w', t', acts)"
  with False show ?thesis
    by (cases ev) (auto simp: listener_step_def on_failure_def Let_def MAX_RETRY_COUNT_def)
next
  case True
  assume st: "listener_step parse w t ev = Some (w', t', acts)"
  show ?thesis
  proof (cases ev)
    case (Message m)
    obtain t1 out r where om: "on_message parse t m = (t1, out, r)"
      by (cases "on_message parse t m") auto
    with st True Message show ?thesis
      by (cases r) (auto simp: listener_step_def on_failure_def Let_def MAX_RETRY_COUNT_def)
  qed (use st True in \<open>auto simp: listener_step_def on_failure_def Let_def MAX_RETRY_COUNT_def\<close>)
qed

theorem retry_reset_only_on_connect_witness:
  "listener_step (\<lambda>s. None) \<lparr>retry_count = 3, connected = False\<rparr> (new_trader ''BTCUSDT'')
       (ConnectFail (OtherError ''refused'')) =
     Some (\<lparr>retry_count = 4, connected = False\<rparr>, new_trader ''BTCUSDT'',
       [Print Connecting, Print (Ws_error (OtherError ''refused'')), Print (Retry_in 16 4),
        Sleep 16])
   \<and> retry_count \<lparr>retry_count = 4, connected = False\<rparr> = min (3 + 1) MAX_RETRY_COUNT
   \<and> retry_count \<lparr>retry_count = 4, connected = False\<rparr> \<noteq> 0"
proof -
  have step: "listener_step (\<lambda>s. None) \<lparr>retry_count = 3, connected = False\<rparr>
       (new_trader ''BTCUSDT'') (ConnectFail (OtherError ''refused'')) =
     Some (\<lparr>retry_count = 4, connected = False\<rparr>, new_trader ''BTCUSDT'',
       [Print Connecting, Print (Ws_error (OtherError ''refused'')), Print (Retry_in 16 4),
        Sleep 16])"
    by (simp add: listener_step_def on_failure_def Let_def MAX_RETRY_COUNT_def
        RETRY_BASE_DELAY_def)
  from retry_reset_only_on_connect [OF step] step show ?thesis
    by simp
qed

section \<open>The trading loop\<close>

lemma mid_100_102: "fdiv2 (fadd (Finite False 100) (Finite False 102)) = Finite False 101"
  by code_simp

lemma demo_mid: "get_mid_price (demo_trader n) = Some (Finite False 101)"
  by (simp add: get_mid_price_def demo_trader_def mid_100_102 del: fadd.simps fdiv2.simps)

lemma demo_env_sel:
  "place_outcome (demo_env sd p q) = p" "cancel_outcome (demo_env sd p q) = q"
  "wait (demo_env sd p q) = 5" "side_choice (demo_env sd p q) = sd"
  by (simp_all add: demo_env_def)

lemma skip_cycle:
  "get_mid_price t = None \<Longrightarrow>
     trade_cycle H c t env = ([Sleep (wait env), Print Waiting_for_quote], t, None)"
  by (simp add: trade_cycle_def)

lemma skip_loop:
  "get_mid_price t = None \<Longrightarrow> running t \<Longrightarrow>
     trade_loop H c t (map Cycle envs) =
       (concat (map (\<lambda>env. [Sleep (wait env), Print Waiting_for_quote]) envs), t, Looping)"
  by (induction envs) (simp_all add: skip_cycle)

text \<open>
  C6. While the trader holds no quote (\<open>bid\<close> or \<open>ask\<close> is \<open>None\<close>), a pass of the
  trading loop waits, prints the waiting line and does nothing else: it sends no
  request, leaves the order counter (and the whole trader) as it was, and the loop goes
  on to what comes next; any number of passes without a quote only wait and print.
\<close>

theorem no_quote_cycle_skips:
  "bid t = None \<or> ask t = None \<Longrightarrow>
     trade_cycle H c t env = ([Sleep (wait env), Print Waiting_for_quote], t, None)
   \<and> requests (fst (trade_cycle H c t env)) = []
   \<and> order_count (fst (snd (trade_cycle H c t env))) = order_count t
   \<and> (running t \<longrightarrow>
        trade_loop H c t (Cycle env # evs) =
          (case trade_loop H c t evs of
             (acts', t'', st) \<Rightarrow> ([Sleep (wait env), Print Waiting_for_quote] @ acts', t'', st))
      \<and> trade_loop H c t (map Cycle envs) =
          (concat (map (\<lambda>env. [Sleep (wait env), Print Waiting_for_quote]) envs), t, Looping))"
proof -
  assume "bid t = None \<or> ask t = None"
  then have "get_mid_price t = None"
    by (auto simp: get_mid_price_def split: option.splits)
  then show ?thesis
    by (simp add: skip_cycle skip_loop del: trade_loop.simps) (simp add: skip_cycle)
qed

theorem no_quote_cycle_skips_witness:
  "(bid (new_trader ''BTCUSDT'') = None \<or> ask (new_trader ''BTCUSDT'') = None)
   \<and> running (new_trader ''BTCUSDT'')
   \<and> trade_cycle demo_hmac demo_client (new_trader ''BTCUSDT'')
        (demo_env BUY (Inr (200, ''ok'')) (Inr (200, ''ok''))) =
      ([Sleep 5, Print Waiting_for_quote], new_trader ''BTCUSDT'', None)
   \<and> trade_loop demo_hmac demo_client (new_trader ''BTCUSDT'')
        (map Cycle [demo_env BUY (Inr (200, ''ok'')) (Inr (200, ''ok'')),
                    demo_env SELL (Inr (200, ''ok'')) (Inr (200, ''ok''))]) =
      ([Sleep 5, Print Waiting_for_quote, Sleep 5, Print Waiting_for_quote],
       new_trader ''BTCUSDT'', Looping)"
proof -
  have h: "bid (new_trader ''BTCUSDT'') = None \<or> ask (new_trader ''BTCUSDT'') = None"
    by (simp add: new_trader_def)
  have r: "running (new_trader ''BTCUSDT'')"
    by (simp add: new_trader_def)
  from no_quote_cycle_skips [OF h, of demo_hmac demo_client
      "demo_env BUY (Inr (200, ''ok'')) (Inr (200, ''ok''))" "[]"
      "[demo_env BUY (Inr (200, ''ok'')) (Inr (200, ''ok'')),
        demo_env SELL (Inr (200, ''ok'')) (Inr (200, ''ok''))]"] h r
  show ?thesis
    by (simp add: demo_env_sel del: trade_loop.simps)
qed

text \<open>
  C9. When the stored bid or the stored ask is a zero float (\<open>0.0\<close> or \<open>-0.0\<close>),
  \<open>get_mid_price\<close> returns \<open>None\<close> although a quote was received, and the pass is the
  one of a trader without a quote: it waits, prints the waiting line, sends no
  request and leaves the order counter as it was.
\<close>

theorem zero_quote_cycle_skips:
  "bid t = Some b \<Longrightarrow> ask t = Some a \<Longrightarrow> (\<exists>s. b = Finite s 0) \<or> (\<exists>s. a = Finite s 0) \<Longrightarrow>
     get_mid_price t = None
   \<and> trade_cycle H c t env = ([Sleep (wait env), Print Waiting_for_quote], t, None)
   \<and> requests (fst (trade_cycle H c t env)) = []
   \<and> order_count (fst (snd (trade_cycle H c t env))) = order_count t"
proof -
  assume "bid t = Some b" "ask t = Some a" "(\<exists>s. b = Finite s 0) \<or> (\<exists>s. a = Finite s 0)"
  then have g: "get_mid_price t = None"
    by (auto simp: get_mid_price_def)
  then show ?thesis
    by (simp add: skip_cycle)
qed


theorem zero_quote_cycle_skips_witness:
  "bid ((demo_trader 3)\<lparr>bid := Some (Finite False 0)\<rparr>) = Some (Finite False 0)
   \<and> ask ((demo_trader 3)\<lparr>bid := Some (Finite False 0)\<rparr>) = Some (Finite False 102)
   \<and> get_mid_price ((demo_trader 3)\<lparr>bid := Some (Finite False 0)\<rparr>) = None
   \<and> trade_cycle demo_hmac demo_client ((demo_trader 3)\<lparr>bid := Some (Finite False 0)\<rparr>)
        (demo_env BUY (Inr (200, ''ok'')) (Inr (200, ''ok''))) =
      ([Sleep 5, Print Waiting_for_quote], (demo_trader 3)\<lparr>bid := Some (Finite False 0)\<rparr>, None)"
proof -
  have b: "bid ((demo_trader 3)\<lparr>bid := Some (Finite False 0)\<rparr>) = Some (Finite False 0)"
    by simp
  have a: "ask ((demo_trader 3)\<lparr>bid := Some (Finite False 0)\<rparr>) = Some (Finite False 102)"
    by (simp add: demo_trader_def)
  have z: "(\<exists>s. Finite False 0 = Finite s 0) \<or> (\<exists>s. Finite False 102 = Finite s 0)"
    by blast
  from zero_quote_cycle_skips [OF b a z, of demo_hmac demo_client
      "demo_env BUY (Inr (200, ''ok'')) (Inr (200, ''ok''))"] b a
  show ?thesis
    by (simp add: demo_env_sel)
qed

text \<open>
  C2 (as amended). In a pass that places an order and whose \<open>place_order\<close> call
  returns, whatever the status, the order counter goes up by one. When the new count
  is below \<open>CANCEL_ORDER_COUNT\<close> the pass ends there. When it has reached it, the pass
  sleeps 2 seconds and sends \<open>cancel_all_orders\<close> for the trader's symbol; if that
  call returns, whatever the status, the result is printed and the counter is reset to
  zero; if it raises, the counter stays at the new count and the exception leaves the
  pass. Nothing else of the trader changes.
\<close>

theorem order_counter_after_cycle:
  assumes "get_mid_price t = Some mid" and "truthy mid"
    and "place_outcome env = Inr (status, resp)"
  shows "case trade_cycle H c t env of (acts, t', r) \<Rightarrow>
      t' = t\<lparr>order_count := order_count t'\<rparr>
    \<and> (order_count t + 1 < CANCEL_ORDER_COUNT \<longrightarrow>
         order_count t' = order_count t + 1 \<and> r = None
       \<and> sleeps acts = [wait env] \<and> length (requests acts) = 1)
    \<and> (CANCEL_ORDER_COUNT \<le> order_count t + 1 \<longrightarrow>
         (\<exists>pre post. acts = pre @ Sleep 2 # Print Cancelling
              # Http (cancel_all_orders H c (symbol t) (cancel_time env)) # post
            \<and> length (requests pre) = 1 \<and> sleeps pre = [wait env]
            \<and> requests post = [] \<and> sleeps post = [])
       \<and> (\<forall>st body. cancel_outcome env = Inr (st, body) \<longrightarrow>
            order_count t' = 0 \<and> r = None \<and> last acts = Print (Cancel_result st body))
       \<and> (\<forall>e. cancel_outcome env = Inl e \<longrightarrow>
            order_count t' = order_count t + 1 \<and> r = Some e))"
proof (cases "order_count t + 1 < CANCEL_ORDER_COUNT")
  case True
  with assms show ?thesis
    by (simp add: trade_cycle_def Let_def)
next
  case False
  show ?thesis
  proof (cases "cancel_outcome env")
    case (Inl e)
    with False assms show ?thesis
      apply (simp add: trade_cycle_def Let_def)
      apply (rule exI [of _ "[Sleep (wait env),
          Print (Placing (side_str (side_choice env))
             (ORDER_QUANTITIES ! (qty_choice env mod length ORDER_QUANTITIES))
             (limit_price mid (side_choice env))),
          Http (place_order H c (symbol t) (side_str (side_choice env))
             (limit_price mid (side_choice env))
             (ORDER_QUANTITIES ! (qty_choice env mod length ORDER_QUANTITIES)) (place_time env)),
          Print (Place_result status resp)]"])
      apply simp
      done
  next
    case (Inr p)
    obtain st body where p: "p = (st, body)" by (cases p)
    with Inr False assms show ?thesis
      apply (simp add: trade_cycle_def Let_def)
      apply (rule exI [of _ "[Sleep (wait env),
          Print (Placing (side_str (side_choice env))
             (ORDER_QUANTITIES ! (qty_choice env mod length ORDER_QUANTITIES))
             (limit_price mid (side_choice env))),
          Http (place_order H c (symbol t) (side_str (side_choice env))
             (limit_price mid (side_choice env))
             (ORDER_QUANTITIES ! (qty_choice env mod length ORDER_QUANTITIES)) (place_time env)),
          Print (Place_result status resp)]"])
      apply simp
      done
  qed
qed

theorem order_counter_after_cycle_witness:
  "order_count (fst (snd (trade_cycle demo_hmac demo_client (demo_trader 4)
      (demo_env BUY (Inr (400, ''rejected'')) (Inr (500, ''error'')))))) = 0
   \<and> snd (snd (trade_cycle demo_hmac demo_client (demo_trader 4)
      (demo_env BUY (Inr (400, ''rejected'')) (Inr (500, ''error''))))) = None"
proof -
  have m: "get_mid_price (demo_trader 4) = Some (Finite False 101)"
    by (rule demo_mid)
  have tr: "truthy (Finite False 101)"
    by simp
  have po: "place_outcome (demo_env BUY (Inr (400, ''rejected'')) (Inr (500, ''error''))) =
      Inr (400, ''rejected'')"
    by (simp add: demo_env_def)
  from order_counter_after_cycle [OF m tr po, of demo_hmac demo_client] show ?thesis
    by (auto simp: demo_env_def demo_trader_def CANCEL_ORDER_COUNT_def split: prod.splits)
qed

text \<open>
  The claim as stated fails when the cancel call raises: with four orders counted, an
  order placed and \<open>cancel_all_orders\<close> raising, the counter is left at 5.
\<close>

theorem cancel_raises_counter_not_reset:
  "order_count (fst (snd (trade_cycle demo_hmac demo_client (demo_trader 4)
      (demo_env BUY (Inr (200, ''ok'')) (Inl (OtherError ''timeout'')))))) = 5
   \<and> snd (snd (trade_cycle demo_hmac demo_client (demo_trader 4)
      (demo_env BUY (Inr (200, ''ok'')) (Inl (OtherError ''timeout''))))) =
       Some (OtherError ''timeout'')"
  by (simp add: trade_cycle_def demo_mid Let_def demo_env_def CANCEL_ORDER_COUNT_def)
    (simp add: demo_trader_def)


lemma trade_cycle_keeps_running: "running (fst (snd (trade_cycle H c t env))) = running t"
  by (simp add: trade_cycle_def Let_def split: option.splits sum.splits prod.splits)

lemma trade_cycle_returns:
  "place_outcome env = Inr (s1, b1) \<Longrightarrow> cancel_outcome env = Inr (s2, b2) \<Longrightarrow>
     snd (snd (trade_cycle H c t env)) = None"
  by (simp add: trade_cycle_def Let_def split: option.splits)

lemma trade_cycle_reports:
  "get_mid_price t = Some mid \<Longrightarrow> truthy mid \<Longrightarrow> place_outcome env = Inr (s1, b1) \<Longrightarrow>
     Print (Place_result s1 b1) \<in> set (fst (trade_cycle H c t env))"
  by (simp add: trade_cycle_def Let_def split: sum.splits prod.splits)

lemma trade_cycle_reports_cancel:
  "get_mid_price t = Some mid \<Longrightarrow> truthy mid \<Longrightarrow> place_outcome env = Inr (s1, b1) \<Longrightarrow>
   CANCEL_ORDER_COUNT \<le> order_count t + 1 \<Longrightarrow> cancel_outcome env = Inr (s2, b2) \<Longrightarrow>
     Print (Cancel_result s2 b2) \<in> set (fst (trade_cycle H c t env))"
  by (simp add: trade_cycle_def Let_def)

lemma trade_cycle_place_raises:
  "get_mid_price t = Some mid \<Longrightarrow> truthy mid \<Longrightarrow> place_outcome env = Inl e \<Longrightarrow>
     snd (snd (trade_cycle H c t env)) = Some e"
  by (simp add: trade_cycle_def Let_def)

lemma trade_cycle_cancel_raises:
  "get_mid_price t = Some mid \<Longrightarrow> truthy mid \<Longrightarrow> place_outcome env = Inr (s1, b1) \<Longrightarrow>
   CANCEL_ORDER_COUNT \<le> order_count t + 1 \<Longrightarrow> cancel_outcome env = Inl e \<Longrightarrow>
     snd (snd (trade_cycle H c t env)) = Some e"
  by (simp add: trade_cycle_def Let_def)

text \<open>
  C3 (as amended). In a pass that places an order: when both REST calls return, with
  whatever status, each result is printed, the pass ends normally and the loop goes on
  with the events that follow; when \<open>place_order\<close> or \<open>cancel_all_orders\<close> raises,
  nothing catches the exception and the loop ends with it: no later pass runs.
\<close>

theorem rest_status_continues_exception_ends:
  assumes "running t" and "get_mid_price t = Some mid" and "truthy mid"
  shows "(\<forall>s1 b1 s2 b2. place_outcome env = Inr (s1, b1) \<and> cancel_outcome env = Inr (s2, b2) \<longrightarrow>
            Print (Place_result s1 b1) \<in> set (fst (trade_cycle H c t env))
          \<and> (CANCEL_ORDER_COUNT \<le> order_count t + 1 \<longrightarrow>
               Print (Cancel_result s2 b2) \<in> set (fst (trade_cycle H c t env)))
          \<and> running (fst (snd (trade_cycle H c t env)))
          \<and> trade_loop H c t (Cycle env # evs) =
               (case trade_loop H c (fst (snd (trade_cycle H c t env))) evs of
                  (acts', t'', st) \<Rightarrow> (fst (trade_cycle H c t env) @ acts', t'', st)))
       \<and> (\<forall>e. place_outcome env = Inl e
              \<or> (\<exists>s1 b1. place_outcome env = Inr (s1, b1)
                    \<and> CANCEL_ORDER_COUNT \<le> order_count t + 1 \<and> cancel_outcome env = Inl e) \<longrightarrow>
            trade_loop H c t (Cycle env # evs) =
              (fst (trade_cycle H c t env), fst (snd (trade_cycle H c t env)), Crashed e))"
proof (intro conjI allI impI)
  fix s1 b1 s2 b2
  assume a: "place_outcome env = Inr (s1, b1) \<and> cancel_outcome env = Inr (s2, b2)"
  show "Print (Place_result s1 b1) \<in> set (fst (trade_cycle H c t env))"
    using assms a by (simp add: trade_cycle_reports)
  show "running (fst (snd (trade_cycle H c t env)))"
    using assms by (simp add: trade_cycle_keeps_running)
  have "snd (snd (trade_cycle H c t env)) = None"
    using a by (simp add: trade_cycle_returns)
  then show "trade_loop H c t (Cycle env # evs) =
               (case trade_loop H c (fst (snd (trade_cycle H c t env))) evs of
                  (acts', t'', st) \<Rightarrow> (fst (trade_cycle H c t env) @ acts', t'', st))"
    using assms(1) by (cases "trade_cycle H c t env") (simp split: prod.splits)
  assume "CANCEL_ORDER_COUNT \<le> order_count t + 1"
  then show "Print (Cancel_result s2 b2) \<in> set (fst (trade_cycle H c t env))"
    using assms a by (simp add: trade_cycle_reports_cancel)
next
  fix e
  assume "place_outcome env = Inl e
     \<or> (\<exists>s1 b1. place_outcome env = Inr (s1, b1)
           \<and> CANCEL_ORDER_COUNT \<le> order_count t + 1 \<and> cancel_outcome env = Inl e)"
  then have "snd (snd (trade_cycle H c t env)) = Some e"
    using assms trade_cycle_place_raises trade_cycle_cancel_raises by blast
  then show "trade_loop H c t (Cycle env # evs) =
      (fst (trade_cycle H c t env), fst (snd (trade_cycle H c t env)), Crashed e)"
    using assms(1) by (cases "trade_cycle H c t env") simp
qed

lemma demo_running: "running (demo_trader n)"
  by (simp add: demo_trader_def)

theorem rest_status_continues_exception_ends_witness:
  "running (demo_trader 0) \<and> get_mid_price (demo_trader 0) = Some (Finite False 101)
   \<and> truthy (Finite False 101)
   \<and> Print (Place_result 500 ''internal error'') \<in>
        set (fst (trade_cycle demo_hmac demo_client (demo_trader 0)
           (demo_env BUY (Inr (500, ''internal error'')) (Inr (200, ''ok'')))))
   \<and> trade_loop demo_hmac demo_client (demo_trader 0)
        [Cycle (demo_env BUY (Inr (500, ''internal error'')) (Inr (200, ''ok''))),
         Cycle (demo_env SELL (Inr (200, ''ok'')) (Inr (200, ''ok'')))] =
      (case trade_loop demo_hmac demo_client
          (fst (snd (trade_cycle demo_hmac demo_client (demo_trader 0)
             (demo_env BUY (Inr (500, ''internal error'')) (Inr (200, ''ok''))))))
          [Cycle (demo_env SELL (Inr (200, ''ok'')) (Inr (200, ''ok'')))] of
         (acts', t'', st) \<Rightarrow>
           (fst (trade_cycle demo_hmac demo_client (demo_trader 0)
             (demo_env BUY (Inr (500, ''internal error'')) (Inr (200, ''ok'')))) @ acts', t'', st))"
proof -
  have tr: "truthy (Finite False 101)"
    by simp
  from rest_status_continues_exception_ends [OF demo_running demo_mid tr,
      of "demo_env BUY (Inr (500, ''internal error'')) (Inr (200, ''ok''))" demo_hmac demo_client 0
        "[Cycle (demo_env SELL (Inr (200, ''ok'')) (Inr (200, ''ok'')))]"]
  show ?thesis
    by (simp add: demo_env_sel demo_running demo_mid del: trade_loop.simps)
qed

text \<open>
  The claim as stated fails for an exception: after \<open>place_order\<close> raises in the first
  pass, the second pass never runs (one request, one wait).
\<close>

theorem place_order_exception_ends_loop:
  "snd (snd (trade_loop demo_hmac demo_client (demo_trader 0)
      [Cycle (demo_env BUY (Inl (OtherError ''timeout'')) (Inr (200, ''ok''))),
       Cycle (demo_env SELL (Inr (200, ''ok'')) (Inr (200, ''ok'')))])) =
     Crashed (OtherError ''timeout'')
   \<and> length (requests (fst (trade_loop demo_hmac demo_client (demo_trader 0)
      [Cycle (demo_env BUY (Inl (OtherError ''timeout'')) (Inr (200, ''ok''))),
       Cycle (demo_env SELL (Inr (200, ''ok'')) (Inr (200, ''ok'')))]))) = 1
   \<and> sleeps (fst (trade_loop demo_hmac demo_client (demo_trader 0)
      [Cycle (demo_env BUY (Inl (OtherError ''timeout'')) (Inr (200, ''ok''))),
       Cycle (demo_env SELL (Inr (200, ''ok'')) (Inr (200, ''ok'')))])) = [5]"
  by (simp add: trade_cycle_def demo_mid Let_def demo_env_def demo_running)

section \<open>The limit price\<close>

lemma buy_ratio: "BUY_PRICE_RATIO = Finite False (4278419646001971 / 4503599627370496)"
  by code_simp

lemma sell_ratio: "SELL_PRICE_RATIO = Finite False (4728779608739021 / 4503599627370496)"
  by code_simp

lemma buy_101:
  "fmul (Finite False 101) BUY_PRICE_RATIO = Finite False (1687970250961715 / 17592186044416)"
  unfolding buy_ratio by code_simp

lemma sell_101:
  "fmul (Finite False 101) SELL_PRICE_RATIO = Finite False (1865651330010317 / 17592186044416)"
  unfolding sell_ratio by code_simp

lemma fmt_buy: "format_1f (Finite False (1687970250961715 / 17592186044416)) = ''95.9''"
  by code_simp

lemma fmt_sell: "format_1f (Finite False (1865651330010317 / 17592186044416)) = ''106.1''"
  by code_simp

lemma limit_price_101: "limit_price (Finite False 101) BUY = ''95.9''"
  "limit_price (Finite False 101) SELL = ''106.1''"
  by (simp_all add: limit_price_def buy_101 sell_101 fmt_buy fmt_sell
      del: fmul.simps format_1f.simps)

lemma requests_append: "requests (xs @ ys) = requests xs @ requests ys"
  by (induction xs rule: requests.induct) simp_all

lemma first_request:
  "get_mid_price t = Some mid \<Longrightarrow> truthy mid \<Longrightarrow>
     \<exists>rest. requests (fst (trade_cycle H c t env)) =
       place_order H c (symbol t) (side_str (side_choice env)) (limit_price mid (side_choice env))
         (ORDER_QUANTITIES ! (qty_choice env mod length ORDER_QUANTITIES)) (place_time env) # rest"
  by (simp add: trade_cycle_def Let_def requests_append split: sum.splits prod.splits)

lemma place_order_price:
  "map_of (req_params (place_order H c s sd price qty now)) ''price'' = Some (PStr price)"
  by (simp add: place_order_def Let_def)

text \<open>
  C8 (as amended). For a quote whose bid, ask and mid-price are nonzero, the pass
  computes the mid-price as \<open>(bid + ask) / 2\<close> and sends as price the product of the
  mid-price and the ratio of the side (\<open>BUY_PRICE_RATIO\<close> or \<open>SELL_PRICE_RATIO\<close>), in
  binary64 arithmetic, printed with one decimal. For bid 100.0 and ask 102.0 the
  mid-price is 101.0, the BUY price is the string 95.9 and the SELL price is 106.1.
\<close>

theorem limit_price_of_quote:
  "bid t = Some b \<Longrightarrow> ask t = Some a \<Longrightarrow> truthy b \<Longrightarrow> truthy a \<Longrightarrow>
   truthy (fdiv2 (fadd b a)) \<Longrightarrow>
     get_mid_price t = Some (fdiv2 (fadd b a))
   \<and> requests (fst (trade_cycle H c t env)) \<noteq> []
   \<and> map_of (req_params (hd (requests (fst (trade_cycle H c t env))))) ''price'' =
       Some (PStr (format_1f (fmul (fdiv2 (fadd b a))
          (if side_choice env = BUY then BUY_PRICE_RATIO else SELL_PRICE_RATIO))))
   \<and> get_mid_price (demo_trader n) = Some (Finite False 101)
   \<and> limit_price (Finite False 101) BUY = ''95.9''
   \<and> limit_price (Finite False 101) SELL = ''106.1''"
proof -
  assume h: "bid t = Some b" "ask t = Some a" "truthy b" "truthy a" "truthy (fdiv2 (fadd b a))"
  then have m: "get_mid_price t = Some (fdiv2 (fadd b a))"
    by (simp add: get_mid_price_def del: fadd.simps fdiv2.simps)
  from first_request [OF m h(5), of H c env] obtain rest where
    r: "requests (fst (trade_cycle H c t env)) =
       place_order H c (symbol t) (side_str (side_choice env))
         (limit_price (fdiv2 (fadd b a)) (side_choice env))
         (ORDER_QUANTITIES ! (qty_choice env mod length ORDER_QUANTITIES)) (place_time env) # rest"
    by blast
  have p: "limit_price (fdiv2 (fadd b a)) (side_choice env) =
      format_1f (fmul (fdiv2 (fadd b a))
          (if side_choice env = BUY then BUY_PRICE_RATIO else SELL_PRICE_RATIO))"
    by (simp add: limit_price_def)
  show ?thesis
    unfolding r using m p
    by (simp add: place_order_price limit_price_101 demo_mid
        del: fadd.simps fdiv2.simps fmul.simps format_1f.simps)
qed

theorem limit_price_of_quote_witness:
  "bid (demo_trader 0) = Some (Finite False 100) \<and> ask (demo_trader 0) = Some (Finite False 102)
   \<and> truthy (Finite False 100) \<and> truthy (Finite False 102) \<and> truthy (Finite False 101)
   \<and> map_of (req_params (hd (requests (fst (trade_cycle demo_hmac demo_client (demo_trader 0)
          (demo_env SELL (Inr (200, ''ok'')) (Inr (200, ''ok'')))))))) ''price'' =
       Some (PStr ''106.1'')"
proof -
  have b: "bid (demo_trader 0) = Some (Finite False 100)"
    and a: "ask (demo_trader 0) = Some (Finite False 102)"
    by (simp_all add: demo_trader_def)
  have tb: "truthy (Finite False 100)" and ta: "truthy (Finite False 102)"
    by simp_all
  have tm: "truthy (fdiv2 (fadd (Finite False 100) (Finite False 102)))"
    unfolding mid_100_102 by simp
  from limit_price_of_quote [OF b a tb ta tm, of demo_hmac demo_client
      "demo_env SELL (Inr (200, ''ok'')) (Inr (200, ''ok''))"] b a
  show ?thesis
    by (simp add: mid_100_102 demo_env_sel sell_101 fmt_sell
        del: fadd.simps fdiv2.simps fmul.simps format_1f.simps)
qed

text \<open>
  The claim as stated fails at bid 100.0, ask 102.0: neither product is the float
  nearest 95.95 or 106.05, and the prices sent are not 95.95 and 106.05.
\<close>

theorem limit_price_not_two_decimals:
  "get_mid_price (demo_trader 0) = Some (Finite False 101)
   \<and> fmul (Finite False 101) BUY_PRICE_RATIO \<noteq> Finite False (9595 / 100)
   \<and> fmul (Finite False 101) SELL_PRICE_RATIO \<noteq> Finite False (10605 / 100)
   \<and> limit_price (Finite False 101) BUY \<noteq> ''95.95''
   \<and> limit_price (Finite False 101) SELL \<noteq> ''106.05''"
  by (simp add: demo_mid buy_101 sell_101 limit_price_101 del: fmul.simps)


section \<open>The order counter over a run\<close>

text \<open>
  While every REST call returns, a run of passes with a quote sends one order per
  pass and one cancellation per \<open>CANCEL_ORDER_COUNT\<close> orders, and the counter is the
  number of orders since the last cancellation.
\<close>

lemma cycle_both_return:
  assumes "get_mid_price t = Some mid" and "truthy mid"
    and "\<not> isl (place_outcome env)" and "\<not> isl (cancel_outcome env)"
    and "order_count t < CANCEL_ORDER_COUNT"
  shows "\<exists>acts. trade_cycle H c t env =
           (acts, t\<lparr>order_count := (order_count t + 1) mod CANCEL_ORDER_COUNT\<rparr>, None)
         \<and> length (filter (\<lambda>r. req_method r = POST) (requests acts)) = 1
         \<and> length (filter (\<lambda>r. req_method r = DELETE) (requests acts)) =
             (order_count t + 1) div CANCEL_ORDER_COUNT"
proof -
  obtain s1 b1 s2 b2 where p: "place_outcome env = Inr (s1, b1)"
    and q: "cancel_outcome env = Inr (s2, b2)"
    using assms(3,4) by (cases "place_outcome env"; cases "cancel_outcome env") auto
  show ?thesis
  proof (cases "order_count t + 1 < CANCEL_ORDER_COUNT")
    case True
    with assms(1,2) p show ?thesis
      by (simp add: trade_cycle_def Let_def place_order_def)
  next
    case False
    with assms(5) have "order_count t + 1 = CANCEL_ORDER_COUNT"
      by simp
    with assms(1,2) p q show ?thesis
      by (simp add: trade_cycle_def Let_def place_order_def cancel_all_orders_def
          CANCEL_ORDER_COUNT_def)
  qed
qed

lemma mid_price_order_count [simp]:
  "get_mid_price (t\<lparr>order_count := n\<rparr>) = get_mid_price t"
  by (simp add: get_mid_price_def)

lemma order_counter_over_run:
  assumes "get_mid_price t = Some mid" and "truthy mid" and "running t"
    and "order_count t < CANCEL_ORDER_COUNT"
    and "list_all (\<lambda>env. \<not> isl (place_outcome env) \<and> \<not> isl (cancel_outcome env)) envs"
  shows "\<exists>acts t'. trade_loop H c t (map Cycle envs) = (acts, t', Looping)
     \<and> order_count t' = (order_count t + length envs) mod CANCEL_ORDER_COUNT
     \<and> length (filter (\<lambda>r. req_method r = POST) (requests acts)) = length envs
     \<and> length (filter (\<lambda>r. req_method r = DELETE) (requests acts)) =
         (order_count t + length envs) div CANCEL_ORDER_COUNT"
  using assms
proof (induction envs arbitrary: t)
  case Nil
  then show ?case by simp
next
  case (Cons env envs)
  define t1 where "t1 = t\<lparr>order_count := (order_count t + 1) mod CANCEL_ORDER_COUNT\<rparr>"
  from Cons.prems have ret: "\<not> isl (place_outcome env)" "\<not> isl (cancel_outcome env)"
    and rest: "list_all (\<lambda>env. \<not> isl (place_outcome env) \<and> \<not> isl (cancel_outcome env)) envs"
    by simp_all
  from cycle_both_return [OF Cons.prems(1,2) ret Cons.prems(4), of H c] obtain acts where
    cyc: "trade_cycle H c t env = (acts, t1, None)"
    and posts: "length (filter (\<lambda>r. req_method r = POST) (requests acts)) = 1"
    and dels: "length (filter (\<lambda>r. req_method r = DELETE) (requests acts)) =
             (order_count t + 1) div CANCEL_ORDER_COUNT"
    unfolding t1_def by blast
  have m1: "get_mid_price t1 = Some mid" and r1: "running t1"
    and o1: "order_count t1 < CANCEL_ORDER_COUNT"
    using Cons.prems by (simp_all add: t1_def CANCEL_ORDER_COUNT_def)
  from Cons.IH [OF m1 Cons.prems(2) r1 o1 rest] obtain acts' t' where
    run: "trade_loop H c t1 (map Cycle envs) = (acts', t', Looping)"
    and oc: "order_count t' = (order_count t1 + length envs) mod CANCEL_ORDER_COUNT"
    and posts': "length (filter (\<lambda>r. req_method r = POST) (requests acts')) = length envs"
    and dels': "length (filter (\<lambda>r. req_method r = DELETE) (requests acts')) =
         (order_count t1 + length envs) div CANCEL_ORDER_COUNT"
    by blast
  have loop: "trade_loop H c t (map Cycle (env # envs)) = (acts @ acts', t', Looping)"
    using Cons.prems(3) cyc run by simp
  have oc': "order_count t' = (order_count t + length (env # envs)) mod CANCEL_ORDER_COUNT"
    using oc by (simp add: t1_def mod_simps)
  have "(order_count t + 1) div CANCEL_ORDER_COUNT
        + ((order_count t + 1) mod CANCEL_ORDER_COUNT + length envs) div CANCEL_ORDER_COUNT
      = (order_count t + 1 + length envs) div CANCEL_ORDER_COUNT"
    by (simp add: CANCEL_ORDER_COUNT_def div_add1_eq [of "order_count t + 1" "length envs" 5])
        presburger
  then have dd: "length (filter (\<lambda>r. req_method r = DELETE) (requests (acts @ acts'))) =
      (order_count t + length (env # envs)) div CANCEL_ORDER_COUNT"
    using dels dels' by (simp add: requests_append t1_def)
  have pp: "length (filter (\<lambda>r. req_method r = POST) (requests (acts @ acts'))) = length (env # envs)"
    using posts posts' by (simp add: requests_append)
  show ?case
    using loop oc' dd pp by blast
qed

section \<open>Signing\<close>

lemma space_not_safe: "CHR '' '' \<notin> set ALWAYS_SAFE"
  by (simp add: ALWAYS_SAFE_def)

lemma hex_digit_not_space: "d < 16 \<Longrightarrow> hex_digit d \<noteq> CHR '' ''"
proof -
  assume "d < 16"
  then have "hex_digit d \<in> set ''0123456789ABCDEF''"
    unfolding hex_digit_def by (intro nth_mem) simp
  then show ?thesis by auto
qed

lemma percent_no_space: "CHR '' '' \<notin> set (percent c)"
proof -
  have "(of_char c :: nat) mod 256 = of_char c"
    by simp
  then have "(of_char c :: nat) < 256"
    by (metis mod_less_divisor zero_less_numeral)
  then have "(of_char c :: nat) div 16 < 16" and "(of_char c :: nat) mod 16 < 16"
    by arith+
  then have "hex_digit (of_char c div 16) \<noteq> CHR '' ''" and "hex_digit (of_char c mod 16) \<noteq> CHR '' ''"
    by (simp_all add: hex_digit_not_space)
  then show ?thesis
    by (simp add: percent_def)
qed

lemma plus_percent:
  "map (\<lambda>c. if c = CHR '' '' then CHR ''+'' else c) (percent c) = percent c"
  using percent_no_space [of c] by (intro map_idI) auto

lemma quote_simps:
  "quote [] safe = []"
  "quote (c # s) safe = (if c \<in> set ALWAYS_SAFE \<union> set safe then [c] else percent c) @ quote s safe"
  by (simp_all add: quote_def)

lemma url_encoded_simps:
  "url_encoded [] = []"
  "url_encoded (c # s) = encode_byte c @ url_encoded s"
  by (simp_all add: url_encoded_def)

lemma quote_without_space: "CHR '' '' \<notin> set s \<Longrightarrow> quote s [] = url_encoded s"
proof (induction s)
  case Nil
  show ?case by (simp add: quote_simps url_encoded_simps)
next
  case (Cons c s)
  then have "c \<noteq> CHR '' ''" and "quote s [] = url_encoded s"
    by auto
  then show ?case
    by (simp add: quote_simps url_encoded_simps encode_byte_def)
qed

lemma quote_with_space:
  "map (\<lambda>c. if c = CHR '' '' then CHR ''+'' else c) (quote s '' '') = url_encoded s"
proof (induction s)
  case Nil
  show ?case by (simp add: quote_simps url_encoded_simps)
next
  case (Cons c s)
  show ?case
  proof (cases "c \<in> set ALWAYS_SAFE")
    case True
    then have "c \<noteq> CHR '' ''"
      using space_not_safe by auto
    with True Cons show ?thesis
      by (simp add: quote_simps url_encoded_simps encode_byte_def)
  next
    case False
    with Cons show ?thesis
      by (simp add: quote_simps url_encoded_simps encode_byte_def plus_percent)
  qed
qed

lemma quote_plus_url_encoded: "quote_plus s = url_encoded s"
  by (simp add: quote_plus_def quote_without_space quote_with_space)

lemma urlencode_items_map:
  "urlencode_items q l = l @ map (\<lambda>(k, v). quote_plus k @ ''='' @ quote_plus (py_str v)) q"
  by (induction q l rule: urlencode_items.induct) simp_all

lemma urlencode_canonical: "urlencode params = canonical_query params"
  by (simp add: urlencode_def canonical_query_def urlencode_items_map quote_plus_url_encoded)

text \<open>
  C5. \<open>sign_query\<close> is the digest, keyed by the secret, of the canonical query string
  of the parameters: the pairs in insertion order, URL-encoded, joined by \<open>&\<close>. It is a
  function of the parameters and the secret alone: equal inputs give the same
  signature.
\<close>

theorem sign_query_canonical:
  "sign_query hmac_sha256 params secret = hmac_sha256 secret (canonical_query params)
   \<and> (params = params' \<and> secret = secret' \<longrightarrow>
        sign_query hmac_sha256 params secret = sign_query hmac_sha256 params' secret')
   \<and> canonical_query [(''symbol'', PStr ''BTC USDT''), (''timestamp'', PInt 1700000000000)] =
        ''symbol=BTC+USDT&timestamp=1700000000000''"
proof -
  have "canonical_query [(''symbol'', PStr ''BTC USDT''), (''timestamp'', PInt 1700000000000)] =
        ''symbol=BTC+USDT&timestamp=1700000000000''"
    by code_simp
  then show ?thesis
    by (simp add: sign_query_def urlencode_canonical)
qed

theorem sign_query_canonical_witness:
  "sign_query demo_hmac [(''symbol'', PStr ''BTC USDT''), (''timestamp'', PInt 1700000000000)]
      ''secret'' = ''secret|symbol=BTC+USDT&timestamp=1700000000000''"
  using sign_query_canonical [of demo_hmac
      "[(''symbol'', PStr ''BTC USDT''), (''timestamp'', PInt 1700000000000)]" "''secret''"
      "[(''symbol'', PStr ''BTC USDT''), (''timestamp'', PInt 1700000000000)]" "''secret''"]
  by (simp add: demo_hmac_def)

text \<open>
  C10. The parameters of a \<open>place_order\<close> request are symbol, side, type, timeInForce,
  quantity, price, timestamp in this order and then the signature, which is
  \<open>sign_query\<close> of the seven before it; those of \<open>cancel_all_orders\<close> are symbol,
  timestamp and then the signature of these two. In both, the signature is that of
  the request's parameters without the signature entry.
\<close>

theorem signature_over_other_params:
  "req_params (place_order H c s sd price qty now) =
     [(''symbol'', PStr s), (''side'', PStr sd), (''type'', PStr ''LIMIT''),
      (''timeInForce'', PStr ''GTC''), (''quantity'', PStr qty), (''price'', PStr price),
      (''timestamp'', PInt now),
      (''signature'', PStr (sign_query H
         [(''symbol'', PStr s), (''side'', PStr sd), (''type'', PStr ''LIMIT''),
          (''timeInForce'', PStr ''GTC''), (''quantity'', PStr qty), (''price'', PStr price),
          (''timestamp'', PInt now)] (api_secret c)))]
   \<and> map_of (req_params (place_order H c s sd price qty now)) ''signature'' =
       Some (PStr (sign_query H
         (filter (\<lambda>p. fst p \<noteq> ''signature'') (req_params (place_order H c s sd price qty now)))
         (api_secret c)))
   \<and> req_params (cancel_all_orders H c s now) =
     [(''symbol'', PStr s), (''timestamp'', PInt now),
      (''signature'', PStr (sign_query H
         [(''symbol'', PStr s), (''timestamp'', PInt now)] (api_secret c)))]
   \<and> map_of (req_params (cancel_all_orders H c s now)) ''signature'' =
       Some (PStr (sign_query H
         (filter (\<lambda>p. fst p \<noteq> ''signature'') (req_params (cancel_all_orders H c s now)))
         (api_secret c)))"
  by (simp add: place_order_def cancel_all_orders_def Let_def)

lemma signed_string_example:
  "urlencode [(''symbol'', PStr ''BTCUSDT''), (''side'', PStr ''BUY''), (''type'', PStr ''LIMIT''),
      (''timeInForce'', PStr ''GTC''), (''quantity'', PStr ''0.004''), (''price'', PStr ''95.9''),
      (''timestamp'', PInt 1700000000000)] =
   ''symbol=BTCUSDT&side=BUY&type=LIMIT&timeInForce=GTC&quantity=0.004&price=95.9&timestamp=1700000000000''"
  by code_simp

section \<open>Messages of the feed\<close>

lemma parse_error_keeps_connection:
  "connected w \<Longrightarrow> parse_quote parse m = Inl e \<Longrightarrow> caught_by_parser e \<Longrightarrow>
     listener_step parse w t (Message m) = Some (w, t, [Print (Parse_error e)])"
  by (simp add: listener_step_def on_message_def message_body_def)

text \<open>
  C7. The claim does not hold of the code. A message whose bid is \<open>null\<close> makes
  \<open>float\<close> raise \<open>TypeError\<close>, which the handler for \<open>KeyError\<close> and \<open>ValueError\<close>
  does not catch: the connection is left and the listener backs off. A message with
  bid and ask but no symbol is not dropped either: the quote is stored before the
  \<open>KeyError\<close> is raised and printed.
\<close>

theorem null_bid_tears_down_connection:
  "listener_step parse \<lparr>retry_count = 0, connected = True\<rparr> (demo_trader 0)
     (Message (Inr (JObj [(''b'', JNull), (''a'', JStr ''102.0''), (''s'', JStr ''BTCUSDT'')]))) =
   Some (\<lparr>retry_count = 1, connected = False\<rparr>, demo_trader 0,
         [Print (Ws_error TypeError), Print (Retry_in 2 1), Sleep 2])
   \<and> listener_step demo_float \<lparr>retry_count = 0, connected = True\<rparr> (new_trader ''BTCUSDT'')
     (Message (Inr (JObj [(''b'', JStr ''100.0''), (''a'', JStr ''102.0'')]))) =
   Some (\<lparr>retry_count = 0, connected = True\<rparr>,
         (new_trader ''BTCUSDT'')\<lparr>bid := Some (Finite False 100), ask := Some (Finite False 102)\<rparr>,
         [Print (Parse_error KeyError)])"
  by (simp add: listener_step_def on_message_def message_body_def parse_quote_def bind_exn_def
      on_failure_def Let_def MAX_RETRY_COUNT_def RETRY_BASE_DELAY_def update_ticker_def
      demo_float_def)


end
